theory Spec2Isabelle
  imports Main "HOL-Library.Multiset"
begin

section \<open>JavaScript values\<close>

text \<open>
  The client moves JSON payloads around and reads a few of their properties, so the
  values of the program are the JSON values together with \<open>undefined\<close>. Strings are
  modelled by their UTF-8 bytes (a HOL \<open>string\<close>); numbers are the integers.
  An object is the list of its own properties, in insertion order.
\<close>

datatype jsval =
    Undefined
  | Null
  | Bool bool
  | Num int
  | Str string
  | Arr "jsval list"
  | Obj "(string \<times> jsval) list"

text \<open>Exceptions that the runtime raises inside the library's code.\<close>

datatype js_error = TypeError | SyntaxError | URIError

text \<open>
  What a piece of asynchronous code ends in: either the continuation it was given is
  invoked with some arguments, or an exception escapes and the continuation is never
  invoked.
\<close>

datatype 'a outcome = Called 'a | Threw js_error

text \<open>JavaScript's ToBoolean, as used by \<open>if (x)\<close> and \<open>&&\<close>.\<close>

fun truthy :: "jsval \<Rightarrow> bool" where
  "truthy Undefined = False"
| "truthy Null = False"
| "truthy (Bool b) = b"
| "truthy (Num n) = (n \<noteq> 0)"
| "truthy (Str s) = (s \<noteq> [])"
| "truthy (Arr xs) = True"
| "truthy (Obj kvs) = True"

text \<open>
  The \<open>length\<close> of a JavaScript string counts UTF-16 code units: one for every code
  point, and one more for every code point outside the basic plane (a four-byte
  sequence in UTF-8). Continuation bytes are \<open>0x80..0xBF\<close>, four-byte lead bytes
  are \<open>0xF0\<close> and above.
\<close>

definition utf16_length :: "string \<Rightarrow> nat" where
  "utf16_length s =
     length (filter (\<lambda>c. \<not> (128 \<le> (of_char c :: nat) \<and> (of_char c :: nat) < 192)) s)
     + length (filter (\<lambda>c. 240 \<le> (of_char c :: nat)) s)"

text \<open>
  Property read \<open>v.k\<close>, for the property names this program reads (\<open>message\<close>,
  \<open>status\<close>, \<open>pendingTask\<close>, \<open>objectID\<close>, \<open>length\<close>): reading a property of
  \<open>undefined\<close> or \<open>null\<close> raises a TypeError, a property that is not there
  reads as \<open>undefined\<close>.
\<close>

fun getprop :: "jsval \<Rightarrow> string \<Rightarrow> js_error + jsval" where
  "getprop Undefined k = Inl TypeError"
| "getprop Null k = Inl TypeError"
| "getprop (Obj kvs) k = Inr (case map_of kvs k of None \<Rightarrow> Undefined | Some v \<Rightarrow> v)"
| "getprop (Str s) k = Inr (if k = ''length'' then Num (int (utf16_length s)) else Undefined)"
| "getprop (Arr xs) k = Inr (if k = ''length'' then Num (int (length xs)) else Undefined)"
| "getprop (Bool b) k = Inr Undefined"
| "getprop (Num n) k = Inr Undefined"

subsection \<open>String primitives\<close>

text \<open>\<open>s.indexOf(pat)\<close>: the first position where \<open>pat\<close> occurs in \<open>s\<close>, or \<open>-1\<close>.\<close>

fun indexOf_from :: "int \<Rightarrow> string \<Rightarrow> string \<Rightarrow> int" where
  "indexOf_from i [] pat = (if pat = [] then i else -1)"
| "indexOf_from i (c # cs) pat =
     (if take (length pat) (c # cs) = pat then i else indexOf_from (i + 1) cs pat)"

definition indexOf :: "string \<Rightarrow> string \<Rightarrow> int" where
  "indexOf s pat = indexOf_from 0 s pat"

text \<open>\<open>s.split(sep)\<close> for a one-character separator; the result is never empty.\<close>

fun split :: "char \<Rightarrow> string \<Rightarrow> string list" where
  "split sep [] = [[]]"
| "split sep (c # cs) =
     (if c = sep then [] # split sep cs
      else (let r = split sep cs in (c # hd r) # tl r))"

text \<open>Array read \<open>n[i]\<close>: \<open>undefined\<close> out of range.\<close>

definition at_index :: "string list \<Rightarrow> nat \<Rightarrow> jsval" where
  "at_index n i = (if i < length n then Str (n ! i) else Undefined)"

text \<open>\<open>s.toLowerCase()\<close> on the ASCII letters.\<close>

definition toLowerCase :: "string \<Rightarrow> string" where
  "toLowerCase s =
     map (\<lambda>c. case map_of (zip ''ABCDEFGHIJKLMNOPQRSTUVWXYZ'' ''abcdefghijklmnopqrstuvwxyz'') c of
                 None \<Rightarrow> c
               | Some l \<Rightarrow> l) s"

subsection \<open>The runtime's library functions\<close>

text \<open>
  \<open>JSON.stringify\<close>, \<open>JSON.parse\<close>, \<open>encodeURIComponent\<close> and the string
  conversion of \<open>'...' + v\<close> belong to the JavaScript runtime, not to this library.
  They are parameters of the model. \<open>JSON.parse\<close> raises a SyntaxError on text that
  is not JSON, and \<open>encodeURIComponent\<close> raises a URIError on a string that holds a
  lone surrogate: the result \<open>None\<close>.
\<close>

record runtime =
  JSON_stringify :: "jsval \<Rightarrow> string"
  JSON_parse :: "string \<Rightarrow> jsval option"
  encodeURIComponent :: "jsval \<Rightarrow> string option"
  toString :: "jsval \<Rightarrow> string"

section \<open>The client, the requests and the world\<close>

text \<open>The fields an \<open>AlgoliaSearch\<close> instance owns.\<close>

record client =
  applicationID :: string
  apiKey :: string
  httpsAgent :: jsval
  forwardAdminAPIKey :: jsval
  forwardEndUserIP :: jsval
  forwardLimitAPIKey :: jsval

text \<open>
  The \<open>opts\<close> object handed to \<open>_jsonRequest\<close>. Its \<open>callback\<close> is the
  continuation of the model and is not a field; \<open>body\<close> is \<open>Undefined\<close> when the
  caller gives none; \<open>hostname\<close> is filled in by the dispatcher. The field
  \<open>method\<close> of the source is \<open>http_method\<close> here, the name being reserved.
\<close>

record opts =
  http_method :: string
  url :: string
  body :: jsval
  hostname :: string

text \<open>The options object given to \<open>https.request\<close>.\<close>

record reqOpts =
  req_method :: string
  req_hostname :: string
  port :: jsval
  path :: string
  headers :: "string \<rightharpoonup> jsval"
  agent :: "jsval option"

text \<open>One network attempt: the request options and the body written, if any.\<close>

record attempt =
  options :: reqOpts
  written :: "string option"

text \<open>What the server's answer looks like to the response handler.\<close>

record response =
  statusCode :: int
  content_type :: "string option"
  payload :: string

text \<open>
  An attempt ends in exactly one event: the request's \<open>error\<close> event, or a response
  that has been read to its \<open>end\<close>. The network is any function from the attempts
  made so far and the present attempt to that event.
\<close>

datatype net_event = NetError jsval | NetResponse response

type_synonym network = "attempt list \<Rightarrow> attempt \<Rightarrow> net_event"

text \<open>
  The state outside the instances. \<open>hosts\<close> is the array \<open>hosts: []\<close> of
  \<open>AlgoliaSearch.prototype\<close>: no instance ever assigns a \<open>hosts\<close> of its own, so
  \<open>this.hosts\<close> is this one array for every instance. \<open>attempts\<close> records the
  calls of \<open>https.request\<close>, \<open>calls\<close> the calls of \<open>_jsonRequest\<close>, \<open>console\<close>
  the values of \<open>body.message\<close> given to \<open>console.log\<close>.
\<close>

record world =
  hosts :: "string list"
  attempts :: "attempt list"
  calls :: "opts list"
  console :: "jsval list"

section \<open>Construction and rate-limit forwarding\<close>

definition enableRateLimitForward :: "jsval \<Rightarrow> jsval \<Rightarrow> jsval \<Rightarrow> client \<Rightarrow> client" where
  "enableRateLimitForward adminAPIKey endUserIP rateLimitAPIKey self =
     self\<lparr>forwardAdminAPIKey := adminAPIKey,
          forwardEndUserIP := endUserIP,
          forwardLimitAPIKey := rateLimitAPIKey\<rparr>"

definition disableRateLimitForward :: "client \<Rightarrow> client" where
  "disableRateLimitForward self =
     self\<lparr>forwardAdminAPIKey := Null,
          forwardEndUserIP := Null,
          forwardLimitAPIKey := Null\<rparr>"

text \<open>
  The constructor's loop. \<open>coin k\<close> is the outcome of the \<open>k\<close>-th test
  \<open>Math.random() > 0.5\<close> of this construction; \<open>hs\<close> is \<open>this.hosts\<close>, which the
  loop reverses and extends in place.
\<close>

fun add_hosts :: "(nat \<Rightarrow> bool) \<Rightarrow> nat \<Rightarrow> string list \<Rightarrow> string list \<Rightarrow> string list" where
  "add_hosts coin i [] hs = hs"
| "add_hosts coin i (h # hostsArray) hs =
     add_hosts coin (i + 1) hostsArray ((if coin i then rev hs else hs) @ [h])"

definition AlgoliaSearch ::
  "(nat \<Rightarrow> bool) \<Rightarrow> string \<Rightarrow> string \<Rightarrow> jsval \<Rightarrow> string list option \<Rightarrow> world \<Rightarrow> client \<times> world" where
  "AlgoliaSearch coin appID key httpsAgent' hostsArray' w =
     (let hostsArray = (case hostsArray' of
                          None \<Rightarrow> [appID @ ''-1.algolia.io'',
                                   appID @ ''-2.algolia.io'',
                                   appID @ ''-3.algolia.io'']
                        | Some a \<Rightarrow> a);
          hs = add_hosts coin 0 hostsArray (hosts w);
          hs = (if coin (length hostsArray) then rev hs else hs);
          self = \<lparr>applicationID = appID, apiKey = key,
                  httpsAgent = (if httpsAgent' = Undefined then Null else httpsAgent'),
                  forwardAdminAPIKey = Null, forwardEndUserIP = Null,
                  forwardLimitAPIKey = Null\<rparr>
      in (disableRateLimitForward self, w\<lparr>hosts := hs\<rparr>))"

section \<open>The request builder\<close>

definition computeRequestOptions :: "client \<Rightarrow> opts \<Rightarrow> string option \<Rightarrow> reqOpts" where
  "computeRequestOptions self opts body' =
     (let reqOpts = \<lparr>req_method = http_method opts,
                     req_hostname = hostname opts,
                     port = Num 443,
                     path = url opts,
                     headers = [''X-Algolia-Application-Id'' \<mapsto> Str (applicationID self),
                                ''X-Algolia-API-Key'' \<mapsto> Str (apiKey self),
                                ''Connection'' \<mapsto> Str ''keep-alive'',
                                ''Content-Length'' \<mapsto> Num 0,
                                ''User-Agent'' \<mapsto> Str ''Algolia for node.js''],
                     agent = None\<rparr>;
          reqOpts = (if forwardAdminAPIKey self \<noteq> Null
                     then reqOpts\<lparr>headers := (headers reqOpts)
                            (''X-Algolia-API-Key'' \<mapsto> forwardAdminAPIKey self,
                             ''X-Forwarded-API-Key'' \<mapsto> forwardLimitAPIKey self,
                             ''X-Forwarded-For'' \<mapsto> forwardEndUserIP self)\<rparr>
                     else reqOpts);
          reqOpts = (if indexOf (hostname opts) '':'' \<noteq> -1
                     then (let n = split CHR '':'' (hostname opts)
                           in reqOpts\<lparr>req_hostname := hd n, port := at_index n 1\<rparr>)
                     else reqOpts);
          reqOpts = (case body' of
                       Some b \<Rightarrow> reqOpts\<lparr>headers := (headers reqOpts)
                            (''Content-Type'' \<mapsto> Str ''application/json'',
                             ''Content-Length'' \<mapsto> Num (int (length b)))\<rparr>
                     | None \<Rightarrow> reqOpts);
          reqOpts = (if httpsAgent self \<noteq> Null
                     then reqOpts\<lparr>agent := Some (httpsAgent self)\<rparr>
                     else reqOpts)
      in reqOpts)"

section \<open>The dispatcher\<close>

text \<open>
  \<open>_jsonRequestByHost\<close> (the leading underscore of the source's names is dropped):
  one attempt against \<open>hostname opts\<close>. The result is what \<open>opts.callback\<close> is
  invoked with, \<open>(retry, error, res, body)\<close>. \<open>read_body\<close> is the handler of
  the response's \<open>end\<close> event up to its last line: it reads the \<open>content-type\<close>
  header without testing that it is there, and parses a body declared as JSON without
  catching the parser's exception. Either exception escapes the handler, and
  \<open>opts.callback\<close> is then never invoked.
\<close>

definition read_body :: "runtime \<Rightarrow> response \<Rightarrow> js_error + jsval" where
  "read_body rt res =
     (case content_type res of
        None \<Rightarrow> Inl TypeError
      | Some ct \<Rightarrow>
          if indexOf (toLowerCase ct) ''application/json'' \<ge> 0
          then (case JSON_parse rt (payload res) of
                  None \<Rightarrow> Inl SyntaxError
                | Some v \<Rightarrow> Inr v)
          else Inr (Str (payload res)))"

definition jsonRequestByHost ::
  "runtime \<Rightarrow> network \<Rightarrow> client \<Rightarrow> opts \<Rightarrow> world
     \<Rightarrow> (bool \<times> bool \<times> response option \<times> jsval) outcome \<times> world" where
  "jsonRequestByHost rt net self opts w =
     (let body' = (if body opts \<noteq> Undefined then Some (JSON_stringify rt (body opts)) else None);
          reqOpts = computeRequestOptions self opts body';
          req = \<lparr>options = reqOpts, written = body'\<rparr>;
          w' = w\<lparr>attempts := attempts w @ [req]\<rparr>
      in case net (attempts w) req of
           NetError e \<Rightarrow> (Called (True, True, None, Obj [(''message'', e)]), w')
         | NetResponse res \<Rightarrow>
             (let retry = (statusCode res = 0 \<or> statusCode res = 503);
                  success = (statusCode res = 200 \<or> statusCode res = 201)
              in case read_body rt res of
                   Inl e \<Rightarrow> (Threw e, w')
                 | Inr body'' \<Rightarrow> (Called (retry, \<not> success, Some res, body''), w')))"

text \<open>
  The callback that \<open>impl\<close> installs logs \<open>body.message\<close> of a failure (a
  TypeError when the body is \<open>null\<close>) and then decides between the next host and the
  caller's callback. \<open>Inl\<close> is the exception, \<open>Inr\<close> the world after the log line.
\<close>

definition log_failure :: "bool \<Rightarrow> jsval \<Rightarrow> world \<Rightarrow> js_error + world" where
  "log_failure error body' w =
     (if error \<and> body' \<noteq> Undefined
      then (case getprop body' ''message'' of
              Inl e \<Rightarrow> Inl e
            | Inr m \<Rightarrow> Inr (w\<lparr>console := console w @ [m]\<rparr>))
      else Inr w)"

text \<open>
  \<open>impl(position)\<close> of \<open>_jsonRequest\<close>, with \<open>hs\<close> the array \<open>self.hosts\<close>.
  The result is what the caller's callback is invoked with, \<open>(error, res, body)\<close>.
\<close>

function impl ::
  "runtime \<Rightarrow> network \<Rightarrow> client \<Rightarrow> opts \<Rightarrow> string list \<Rightarrow> nat \<Rightarrow> world
     \<Rightarrow> (bool \<times> response option \<times> jsval) outcome \<times> world" where
  "impl rt net self opts hs idx w =
     (if length hs \<le> idx
      then (Called (True, None, Obj [(''message'', Str ''Cannot contact server'')]), w)
      else (case jsonRequestByHost rt net self (opts\<lparr>hostname := hs ! idx\<rparr>) w of
              (Threw e, w') \<Rightarrow> (Threw e, w')
            | (Called (retry, error, res, body'), w') \<Rightarrow>
                (case log_failure error body' w' of
                   Inl e \<Rightarrow> (Threw e, w')
                 | Inr w'' \<Rightarrow>
                     if retry \<and> error \<and> idx + 1 < length hs
                     then impl rt net self opts hs (idx + 1) w''
                     else (Called (error, res, body'), w''))))"
  by pat_completeness auto
termination
  by (relation "measure (\<lambda>(rt, net, self, opts, hs, idx, w). length hs - idx)") auto

declare impl.simps [simp del]

definition jsonRequest ::
  "runtime \<Rightarrow> network \<Rightarrow> client \<Rightarrow> opts \<Rightarrow> world
     \<Rightarrow> (bool \<times> response option \<times> jsval) outcome \<times> world" where
  "jsonRequest rt net self opts w =
     impl rt net self opts (hosts w) 0 (w\<lparr>calls := calls w @ [opts]\<rparr>)"

section \<open>The index methods\<close>

text \<open>
  The wrapper \<open>function(error, res, body) { callback(error, body); }\<close> that the
  index methods hand to the dispatcher. The caller's \<open>callback\<close> is taken to be a
  function; the result of a method is what that function is invoked with.
\<close>

fun to_caller ::
  "(bool \<times> response option \<times> jsval) outcome \<times> world \<Rightarrow> (bool \<times> jsval) outcome \<times> world" where
  "to_caller (Called (error, res, body'), w) = (Called (error, body'), w)"
| "to_caller (Threw e, w) = (Threw e, w)"

definition deleteObject ::
  "runtime \<Rightarrow> network \<Rightarrow> client \<Rightarrow> string \<Rightarrow> jsval \<Rightarrow> world \<Rightarrow> (bool \<times> jsval) outcome \<times> world" where
  "deleteObject rt net as indexName objectID w =
     (if objectID = Null
      then (Called (False, Obj [(''message'', Str ''empty objectID'')]), w)
      else (case getprop objectID ''length'' of
              Inl e \<Rightarrow> (Threw e, w)
            | Inr len \<Rightarrow>
                if len = Num 0
                then (Called (False, Obj [(''message'', Str ''empty objectID'')]), w)
                else (case encodeURIComponent rt (Str indexName) of
                        None \<Rightarrow> (Threw URIError, w)
                      | Some i \<Rightarrow>
                          (case encodeURIComponent rt objectID of
                             None \<Rightarrow> (Threw URIError, w)
                           | Some oid \<Rightarrow>
                               to_caller (jsonRequest rt net as
                                 \<lparr>http_method = ''DELETE'',
                                  url = ''/1/indexes/'' @ i @ ''/'' @ oid,
                                  body = Undefined, hostname = []\<rparr> w)))))"

text \<open>
  The loop of \<open>saveObjects\<close> and \<open>partialUpdateObjects\<close>: \<open>requests\<close> is
  \<open>postObj.requests\<close> so far. Reading \<open>objects[i].objectID\<close> raises a TypeError
  when the element is \<open>null\<close> or \<open>undefined\<close>, and encoding it raises a URIError
  when \<open>encodeURIComponent\<close> does; either ends the loop, and the method.
\<close>

fun batch_requests :: "runtime \<Rightarrow> string \<Rightarrow> jsval list \<Rightarrow> jsval list \<Rightarrow> js_error + jsval list" where
  "batch_requests rt action [] requests = Inr requests"
| "batch_requests rt action (obj # objects) requests =
     (case getprop obj ''objectID'' of
        Inl e \<Rightarrow> Inl e
      | Inr objectID \<Rightarrow>
          (case encodeURIComponent rt objectID of
             None \<Rightarrow> Inl URIError
           | Some oid \<Rightarrow>
               batch_requests rt action objects
                 (requests @ [Obj [(''action'', Str action),
                                   (''objectID'', Str oid),
                                   (''body'', obj)]])))"

definition saveObjects ::
  "runtime \<Rightarrow> network \<Rightarrow> client \<Rightarrow> string \<Rightarrow> jsval list \<Rightarrow> world
     \<Rightarrow> (bool \<times> jsval) outcome \<times> world" where
  "saveObjects rt net as indexName objects w =
     (case batch_requests rt ''updateObject'' objects [] of
        Inl e \<Rightarrow> (Threw e, w)
      | Inr requests \<Rightarrow>
          (case encodeURIComponent rt (Str indexName) of
             None \<Rightarrow> (Threw URIError, w)
           | Some i \<Rightarrow>
               to_caller (jsonRequest rt net as
                 \<lparr>http_method = ''POST'',
                  url = ''/1/indexes/'' @ i @ ''/batch'',
                  body = Obj [(''requests'', Arr requests)], hostname = []\<rparr> w)))"

definition partialUpdateObjects ::
  "runtime \<Rightarrow> network \<Rightarrow> client \<Rightarrow> string \<Rightarrow> jsval list \<Rightarrow> world
     \<Rightarrow> (bool \<times> jsval) outcome \<times> world" where
  "partialUpdateObjects rt net as indexName objects w =
     (case batch_requests rt ''partialUpdateObject'' objects [] of
        Inl e \<Rightarrow> (Threw e, w)
      | Inr requests \<Rightarrow>
          (case encodeURIComponent rt (Str indexName) of
             None \<Rightarrow> (Threw URIError, w)
           | Some i \<Rightarrow>
               to_caller (jsonRequest rt net as
                 \<lparr>http_method = ''POST'',
                  url = ''/1/indexes/'' @ i @ ''/batch'',
                  body = Obj [(''requests'', Arr requests)], hostname = []\<rparr> w)))"

text \<open>
  \<open>waitTask\<close> polls with no bound, so it is a partial function: \<open>None\<close> is the run
  that never reaches the caller's callback. \<open>poll\<close> is what one status check decides:
  the arguments of the caller's callback, or to check again (\<open>None\<close>). \<open>task_opts\<close>
  is the request of a status check, given the index name as \<open>encodeURIComponent\<close>
  returned it.
\<close>

definition poll :: "bool \<Rightarrow> jsval \<Rightarrow> js_error + (bool \<times> jsval) option" where
  "poll error body' =
     (if error then Inr (Some (True, body'))
      else (case getprop body' ''status'' of
              Inl e \<Rightarrow> Inl e
            | Inr status \<Rightarrow>
                if status = Str ''published'' then Inr (Some (False, body'))
                else (case getprop body' ''pendingTask'' of
                        Inl e \<Rightarrow> Inl e
                      | Inr pendingTask \<Rightarrow>
                          if truthy pendingTask then Inr None
                          else Inr (Some (True, body')))))"

definition task_opts :: "runtime \<Rightarrow> string \<Rightarrow> jsval \<Rightarrow> opts" where
  "task_opts rt i taskID =
     \<lparr>http_method = ''GET'',
      url = ''/1/indexes/'' @ i @ ''/task/'' @ toString rt taskID,
      body = Undefined, hostname = []\<rparr>"

partial_function (option) waitTask ::
  "runtime \<Rightarrow> network \<Rightarrow> client \<Rightarrow> string \<Rightarrow> jsval \<Rightarrow> world
     \<Rightarrow> ((bool \<times> jsval) outcome \<times> world) option" where
  "waitTask rt net as indexName taskID w =
     (case encodeURIComponent rt (Str indexName) of
        None \<Rightarrow> Some (Threw URIError, w)
      | Some i \<Rightarrow>
          (case jsonRequest rt net as (task_opts rt i taskID) w of
             (Threw e, w') \<Rightarrow> Some (Threw e, w')
           | (Called (error, res, body'), w') \<Rightarrow>
               (case poll error body' of
                  Inl e \<Rightarrow> Some (Threw e, w')
                | Inr (Some r) \<Rightarrow> Some (Called r, w')
                | Inr None \<Rightarrow> waitTask rt net as indexName taskID w')))"

declare waitTask.simps [code]

section \<open>Vocabulary for the statements\<close>

text \<open>
  The attempt that \<open>_jsonRequestByHost\<close> issues for \<open>opts\<close>: the request options of
  the builder and the serialised body (lemma \<open>jsonRequestByHost_attempts\<close> below).
\<close>

definition attempt_for :: "runtime \<Rightarrow> client \<Rightarrow> opts \<Rightarrow> attempt" where
  "attempt_for rt self opts =
     (let body' = (if body opts \<noteq> Undefined then Some (JSON_stringify rt (body opts)) else None)
      in \<lparr>options = computeRequestOptions self opts body', written = body'\<rparr>)"

text \<open>A process in which no client has been constructed and nothing has happened yet.\<close>

definition fresh :: world where
  "fresh = \<lparr>hosts = [], attempts = [], calls = [], console = []\<rparr>"

text \<open>Servers that answer every attempt with a bare status line: no headers, no body.\<close>

definition bare :: "int \<Rightarrow> network" where
  "bare status history req =
     NetResponse \<lparr>statusCode = status, content_type = None, payload = []\<rparr>"

text \<open>
  Concrete inputs for the instances below: a runtime that knows the few texts and
  values used there, a client, and four servers. \<open>task_server\<close> reports the task
  pending twice and published from the third attempt on. \<open>lone_surrogate\<close> is the
  string of the one code unit D800, a surrogate with no partner, by the three bytes
  \<open>ED A0 80\<close> that extend UTF-8 to it; the runtime refuses to encode it and
  escapes blanks.
\<close>

definition lone_surrogate :: string where
  "lone_surrogate = [CHR 0xED, CHR 0xA0, CHR 0x80]"

definition stub_runtime :: runtime where
  \<open>stub_runtime =
     \<lparr>JSON_stringify = (\<lambda>v. if v = Obj [] then ''{}'' else ''null''),
      JSON_parse = (\<lambda>s. if s = ''{}'' then Some (Obj [])
                         else if s = ''{"pendingTask":true}''
                           then Some (Obj [(''pendingTask'', Bool True)])
                         else if s = ''{"status":"published"}''
                           then Some (Obj [(''status'', Str ''published'')])
                         else if s = ''null'' then Some Null
                         else None),
      encodeURIComponent =
        (\<lambda>v. case v of
               Str s \<Rightarrow> if s = lone_surrogate then None
                        else Some (concat (map (\<lambda>c. if c = CHR '' '' then ''%20'' else [c]) s))
             | _ \<Rightarrow> Some ''undefined''),
      toString = (\<lambda>v. case v of Str s \<Rightarrow> s | _ \<Rightarrow> ''undefined'')\<rparr>\<close>

definition stub_client :: client where
  "stub_client =
     \<lparr>applicationID = ''APP'', apiKey = ''KEY'', httpsAgent = Null,
      forwardAdminAPIKey = Null, forwardEndUserIP = Null, forwardLimitAPIKey = Null\<rparr>"

definition json_reply :: "int \<Rightarrow> string \<Rightarrow> response" where
  "json_reply status text' =
     \<lparr>statusCode = status, content_type = Some ''application/json'', payload = text'\<rparr>"

definition task_server :: network where
  \<open>task_server history req =
     NetResponse (if length history < 2 then json_reply 200 ''{"pendingTask":true}''
                  else json_reply 200 ''{"status":"published"}'')\<close>

definition empty_server :: network where
  "empty_server history req = NetResponse (json_reply 200 ''{}'')"

definition null_server :: network where
  "null_server history req = NetResponse (json_reply 200 ''null'')"

definition failing_server :: network where
  "failing_server history req = NetError (Str ''ECONNREFUSED'')"

definition one_host :: world where
  "one_host = \<lparr>hosts = [''localhost:8080''], attempts = [], calls = [], console = []\<rparr>"

section \<open>The request builder, field by field\<close>

lemma computeRequestOptions_fields:
  "computeRequestOptions self opts b =
     \<lparr>req_method = http_method opts,
      req_hostname = (if indexOf (hostname opts) '':'' \<noteq> -1
                      then hd (split CHR '':'' (hostname opts)) else hostname opts),
      port = (if indexOf (hostname opts) '':'' \<noteq> -1
              then at_index (split CHR '':'' (hostname opts)) 1 else Num 443),
      path = url opts,
      headers =
        (let h0 = [''X-Algolia-Application-Id'' \<mapsto> Str (applicationID self),
                   ''X-Algolia-API-Key'' \<mapsto> Str (apiKey self),
                   ''Connection'' \<mapsto> Str ''keep-alive'',
                   ''Content-Length'' \<mapsto> Num 0,
                   ''User-Agent'' \<mapsto> Str ''Algolia for node.js''];
             h1 = (if forwardAdminAPIKey self \<noteq> Null
                   then h0(''X-Algolia-API-Key'' \<mapsto> forwardAdminAPIKey self,
                           ''X-Forwarded-API-Key'' \<mapsto> forwardLimitAPIKey self,
                           ''X-Forwarded-For'' \<mapsto> forwardEndUserIP self)
                   else h0)
         in case b of
              Some s \<Rightarrow> h1(''Content-Type'' \<mapsto> Str ''application/json'',
                            ''Content-Length'' \<mapsto> Num (int (length s)))
            | None \<Rightarrow> h1),
      agent = (if httpsAgent self \<noteq> Null then Some (httpsAgent self) else None)\<rparr>"
  unfolding computeRequestOptions_def Let_def
  by (cases b; cases "forwardAdminAPIKey self = Null";
      cases "indexOf (hostname opts) '':'' = -1"; cases "httpsAgent self = Null") simp_all

lemma computeRequestOptions_headers:
  "headers (computeRequestOptions self opts b) =
     (let h0 = [''X-Algolia-Application-Id'' \<mapsto> Str (applicationID self),
                ''X-Algolia-API-Key'' \<mapsto> Str (apiKey self),
                ''Connection'' \<mapsto> Str ''keep-alive'',
                ''Content-Length'' \<mapsto> Num 0,
                ''User-Agent'' \<mapsto> Str ''Algolia for node.js''];
          h1 = (if forwardAdminAPIKey self \<noteq> Null
                then h0(''X-Algolia-API-Key'' \<mapsto> forwardAdminAPIKey self,
                        ''X-Forwarded-API-Key'' \<mapsto> forwardLimitAPIKey self,
                        ''X-Forwarded-For'' \<mapsto> forwardEndUserIP self)
                else h0)
      in case b of
           Some s \<Rightarrow> h1(''Content-Type'' \<mapsto> Str ''application/json'',
                         ''Content-Length'' \<mapsto> Num (int (length s)))
         | None \<Rightarrow> h1)"
  by (subst computeRequestOptions_fields) simp

lemma computeRequestOptions_port:
  "port (computeRequestOptions self opts b) =
     (if indexOf (hostname opts) '':'' \<noteq> -1
      then at_index (split CHR '':'' (hostname opts)) 1 else Num 443)"
  by (subst computeRequestOptions_fields) simp

lemma computeRequestOptions_hostname:
  "req_hostname (computeRequestOptions self opts b) =
     (if indexOf (hostname opts) '':'' \<noteq> -1
      then hd (split CHR '':'' (hostname opts)) else hostname opts)"
  by (subst computeRequestOptions_fields) simp

subsection \<open>\<open>indexOf\<close> and \<open>split\<close> at a colon\<close>

lemma indexOf_from_char:
  "0 \<le> i \<Longrightarrow> (indexOf_from i s [c] = -1) = (c \<notin> set s)"
  by (induction s arbitrary: i) auto

lemma indexOf_colon: "(indexOf s '':'' \<noteq> -1) = (CHR '':'' \<in> set s)"
  by (simp add: indexOf_def indexOf_from_char)

lemma split_nonempty: "split sep s \<noteq> []"
  by (induction s) (auto simp: Let_def)

lemma hd_split: "hd (split sep s) = takeWhile (\<lambda>c. c \<noteq> sep) s"
  by (induction s) (auto simp: Let_def)

lemma split_second:
  "sep \<in> set s \<Longrightarrow> 1 < length (split sep s)
     \<and> split sep s ! 1 = takeWhile (\<lambda>c. c \<noteq> sep) (tl (dropWhile (\<lambda>c. c \<noteq> sep) s))"
proof (induction s)
  case Nil
  then show ?case by simp
next
  case (Cons c cs)
  show ?case
  proof (cases "c = sep")
    case True
    then show ?thesis
      using split_nonempty[of sep cs] hd_split[of sep cs]
      by (cases "split sep cs") (auto simp: hd_conv_nth)
  next
    case False
    then have "sep \<in> set cs" using Cons.prems by simp
    from Cons.IH[OF this] False show ?thesis
      by (cases "split sep cs") (auto simp: Let_def nth_tl)
  qed
qed

lemma takeWhile_before: "x \<notin> set h \<Longrightarrow> takeWhile (\<lambda>c. c \<noteq> x) (h @ x # p) = h"
  by (induction h) auto

lemma dropWhile_before: "x \<notin> set h \<Longrightarrow> dropWhile (\<lambda>c. c \<noteq> x) (h @ x # p) = x # p"
  by (induction h) auto

text \<open>A pool entry \<open>host:port\<close> with one colon: the port is all that follows it.\<close>

lemma port_of_host_colon_port:
  assumes "hostname opts = h @ '':'' @ p" "CHR '':'' \<notin> set h" "CHR '':'' \<notin> set p"
  shows "port (computeRequestOptions self opts b) = Str p
    \<and> req_hostname (computeRequestOptions self opts b) = h"
proof -
  have "CHR '':'' \<in> set (hostname opts)" using assms(1) by simp
  moreover have "takeWhile (\<lambda>c. c \<noteq> CHR '':'') (hostname opts) = h"
    using assms(1,2) by (simp add: takeWhile_before)
  moreover have "dropWhile (\<lambda>c. c \<noteq> CHR '':'') (hostname opts) = '':'' @ p"
    using assms(1,2) by (simp add: dropWhile_before)
  moreover have "takeWhile (\<lambda>c. c \<noteq> CHR '':'') p = p"
    using assms(3) by (auto simp: takeWhile_eq_all_conv)
  ultimately show ?thesis
    using split_second[of "CHR '':''" "hostname opts"]
    by (simp add: computeRequestOptions_port computeRequestOptions_hostname indexOf_colon
        hd_split at_index_def)
qed

section \<open>One attempt\<close>

lemma jsonRequestByHost_attempts:
  "attempts (snd (jsonRequestByHost rt net self opts w)) = attempts w @ [attempt_for rt self opts]"
  by (simp add: jsonRequestByHost_def attempt_for_def Let_def split: net_event.split sum.split)

lemma jsonRequestByHost_calls: "calls (snd (jsonRequestByHost rt net self opts w)) = calls w"
  by (simp add: jsonRequestByHost_def Let_def split: net_event.split sum.split)

lemma jsonRequestByHost_response:
  assumes "net (attempts w) (attempt_for rt self opts) = NetResponse res"
    and "read_body rt res = Inr b"
  shows "jsonRequestByHost rt net self opts w =
           (Called (statusCode res = 0 \<or> statusCode res = 503,
                    \<not> (statusCode res = 200 \<or> statusCode res = 201), Some res, b),
            w\<lparr>attempts := attempts w @ [attempt_for rt self opts]\<rparr>)"
  using assms by (simp add: jsonRequestByHost_def attempt_for_def Let_def)

lemma jsonRequestByHost_error:
  assumes "net (attempts w) (attempt_for rt self opts) = NetError e"
  shows "jsonRequestByHost rt net self opts w =
           (Called (True, True, None, Obj [(''message'', e)]),
            w\<lparr>attempts := attempts w @ [attempt_for rt self opts]\<rparr>)"
  using assms by (simp add: jsonRequestByHost_def attempt_for_def Let_def)

lemma log_failure_calls: "log_failure error b w = Inr w' \<Longrightarrow> calls w' = calls w"
  by (auto simp: log_failure_def split: if_splits sum.splits)

lemma log_failure_attempts: "log_failure error b w = Inr w' \<Longrightarrow> attempts w' = attempts w"
  by (auto simp: log_failure_def split: if_splits sum.splits)

section \<open>The dispatcher's retry policy\<close>

text \<open>
  When every attempt is answered with status 503 and a body that the response handler
  can hand on, \<open>impl\<close> started at host \<open>idx\<close> tries every remaining host once, in
  pool order, and then reports the failure of the last one.
\<close>

lemma impl_retries_every_host:
  assumes net: "\<And>history req. \<exists>res b. net history req = NetResponse res \<and> statusCode res = 503
                   \<and> read_body rt res = Inr b \<and> b \<noteq> Null"
    and idx: "idx < length hs"
  shows "\<exists>res b w'. impl rt net self opts hs idx w = (Called (True, Some res, b), w')
           \<and> statusCode res = 503
           \<and> attempts w' =
               attempts w @ map (\<lambda>h. attempt_for rt self (opts\<lparr>hostname := h\<rparr>)) (drop idx hs)
           \<and> hosts w' = hosts w \<and> calls w' = calls w"
  using idx
proof (induction "length hs - idx" arbitrary: idx w)
  case 0
  then show ?case by simp
next
  case (Suc n)
  let ?o = "opts\<lparr>hostname := hs ! idx\<rparr>"
  obtain res b where r: "net (attempts w) (attempt_for rt self ?o) = NetResponse res"
    "statusCode res = 503" "read_body rt res = Inr b" "b \<noteq> Null"
    using net by blast
  let ?w1 = "w\<lparr>attempts := attempts w @ [attempt_for rt self ?o]\<rparr>"
  have byhost: "jsonRequestByHost rt net self ?o w = (Called (True, True, Some res, b), ?w1)"
    using jsonRequestByHost_response[of net w rt self ?o res b] r by simp
  obtain w2 where log: "log_failure True b ?w1 = Inr w2" "attempts w2 = attempts ?w1"
    "hosts w2 = hosts w" "calls w2 = calls w"
    using r(4) by (cases b) (auto simp: log_failure_def)
  have dr: "drop idx hs = hs ! idx # drop (Suc idx) hs"
    using Suc.prems by (simp add: Cons_nth_drop_Suc)
  show ?case
  proof (cases "Suc idx < length hs")
    case True
    have "n = length hs - Suc idx" using Suc.hyps(2) by simp
    from Suc.hyps(1)[OF this True, of w2]
    obtain res' b' w' where
      ih: "impl rt net self opts hs (Suc idx) w2 = (Called (True, Some res', b'), w')"
        "statusCode res' = 503"
        "attempts w' =
           attempts w2 @ map (\<lambda>h. attempt_for rt self (opts\<lparr>hostname := h\<rparr>)) (drop (Suc idx) hs)"
        "hosts w' = hosts w2" "calls w' = calls w2"
      by blast
    have "impl rt net self opts hs idx w = impl rt net self opts hs (Suc idx) w2"
      using Suc.prems True byhost log(1) by (subst impl.simps) simp
    then show ?thesis using ih log dr by simp
  next
    case False
    have "impl rt net self opts hs idx w = (Called (True, Some res, b), w2)"
      using Suc.prems False byhost log(1) by (subst impl.simps) simp
    moreover have "drop (Suc idx) hs = []" using False by simp
    ultimately show ?thesis using r(2) log dr by simp
  qed
qed

lemma jsonRequest_retries_every_host:
  assumes net: "\<And>history req. \<exists>res b. net history req = NetResponse res \<and> statusCode res = 503
                   \<and> read_body rt res = Inr b \<and> b \<noteq> Null"
    and pool: "hosts w \<noteq> []"
  shows "\<exists>res b w'. jsonRequest rt net self opts w = (Called (True, Some res, b), w')
           \<and> statusCode res = 503
           \<and> attempts w' =
               attempts w @ map (\<lambda>h. attempt_for rt self (opts\<lparr>hostname := h\<rparr>)) (hosts w)"
proof -
  have "0 < length (hosts w)" using pool by simp
  from impl_retries_every_host[of net rt 0 "hosts w" self opts "w\<lparr>calls := calls w @ [opts]\<rparr>",
      OF net this]
  show ?thesis unfolding jsonRequest_def by auto
qed

text \<open>
  A response of the first host whose status is none of 200, 201, 0 and 503, and whose
  body the handler can hand on, ends the call as a failure after that one attempt.
\<close>

lemma jsonRequest_stops_at_first_refusal:
  assumes first: "net (attempts w) (attempt_for rt self (opts\<lparr>hostname := hd (hosts w)\<rparr>))
                    = NetResponse res"
    and status: "statusCode res \<notin> {200, 201, 0, 503}"
    and read: "read_body rt res = Inr b" "b \<noteq> Null"
    and pool: "hosts w \<noteq> []"
  shows "\<exists>w'. jsonRequest rt net self opts w = (Called (True, Some res, b), w')
           \<and> attempts w' = attempts w @ [attempt_for rt self (opts\<lparr>hostname := hd (hosts w)\<rparr>)]"
proof -
  let ?o = "opts\<lparr>hostname := hosts w ! 0\<rparr>"
  let ?w0 = "w\<lparr>calls := calls w @ [opts]\<rparr>"
  let ?w1 = "?w0\<lparr>attempts := attempts w @ [attempt_for rt self ?o]\<rparr>"
  have hd0: "hosts w ! 0 = hd (hosts w)" using pool by (simp add: hd_conv_nth)
  have "net (attempts ?w0) (attempt_for rt self ?o) = NetResponse res" using first hd0 by simp
  from jsonRequestByHost_response[of net ?w0 rt self ?o res b] this read(1) status
  have byhost: "jsonRequestByHost rt net self ?o ?w0 = (Called (False, True, Some res, b), ?w1)"
    by simp
  obtain w2 where log: "log_failure True b ?w1 = Inr w2" "attempts w2 = attempts ?w1"
    using read(2) by (cases b) (auto simp: log_failure_def)
  have "impl rt net self opts (hosts w) 0 ?w0 = (Called (True, Some res, b), w2)"
    using pool byhost log(1) by (subst impl.simps) simp
  then show ?thesis using log(2) hd0 by (simp add: jsonRequest_def)
qed

text \<open>A success of the first host ends the call after that one attempt.\<close>

lemma jsonRequest_first_host_answers:
  assumes first: "net (attempts w) (attempt_for rt self (opts\<lparr>hostname := hd (hosts w)\<rparr>))
                    = NetResponse res"
    and status: "statusCode res = 200 \<or> statusCode res = 201"
    and read: "read_body rt res = Inr b"
    and pool: "hosts w \<noteq> []"
  shows "jsonRequest rt net self opts w =
           (Called (False, Some res, b),
            w\<lparr>calls := calls w @ [opts],
              attempts := attempts w @ [attempt_for rt self (opts\<lparr>hostname := hd (hosts w)\<rparr>)]\<rparr>)"
proof -
  let ?o = "opts\<lparr>hostname := hosts w ! 0\<rparr>"
  let ?w0 = "w\<lparr>calls := calls w @ [opts]\<rparr>"
  let ?w1 = "?w0\<lparr>attempts := attempts w @ [attempt_for rt self ?o]\<rparr>"
  have hd0: "hosts w ! 0 = hd (hosts w)" using pool by (simp add: hd_conv_nth)
  have "net (attempts ?w0) (attempt_for rt self ?o) = NetResponse res" using first hd0 by simp
  from jsonRequestByHost_response[of net ?w0 rt self ?o res b] this read status
  have byhost: "jsonRequestByHost rt net self ?o ?w0 = (Called (False, False, Some res, b), ?w1)"
    by auto
  have "impl rt net self opts (hosts w) 0 ?w0 = (Called (False, Some res, b), ?w1)"
    using pool byhost by (subst impl.simps) (simp add: log_failure_def)
  then show ?thesis using hd0 by (simp add: jsonRequest_def)
qed

text \<open>A transport error of the only host ends the call with that error as payload.\<close>

lemma jsonRequest_only_host_unreachable:
  assumes pool: "hosts w = [h]"
    and err: "net (attempts w) (attempt_for rt self (opts\<lparr>hostname := h\<rparr>)) = NetError e"
  shows "jsonRequest rt net self opts w =
           (Called (True, None, Obj [(''message'', e)]),
            w\<lparr>calls := calls w @ [opts],
              attempts := attempts w @ [attempt_for rt self (opts\<lparr>hostname := h\<rparr>)],
              console := console w @ [e]\<rparr>)"
proof -
  let ?o = "opts\<lparr>hostname := h\<rparr>"
  let ?w0 = "w\<lparr>calls := calls w @ [opts]\<rparr>"
  have "net (attempts ?w0) (attempt_for rt self ?o) = NetError e" using err by simp
  from jsonRequestByHost_error[of net ?w0 rt self ?o e] this
  have byhost: "jsonRequestByHost rt net self ?o ?w0 =
      (Called (True, True, None, Obj [(''message'', e)]),
       ?w0\<lparr>attempts := attempts w @ [attempt_for rt self ?o]\<rparr>)"
    by simp
  have "impl rt net self opts [h] 0 ?w0 =
      (Called (True, None, Obj [(''message'', e)]),
       ?w0\<lparr>attempts := attempts w @ [attempt_for rt self ?o], console := console w @ [e]\<rparr>)"
    using byhost by (subst impl.simps) (simp add: log_failure_def)
  then show ?thesis using pool by (simp add: jsonRequest_def)
qed

text \<open>Every call of \<open>_jsonRequest\<close> is recorded once, whatever the attempts do.\<close>

lemma impl_calls: "calls (snd (impl rt net self opts hs idx w)) = calls w"
proof (induction rt net self opts hs idx w rule: impl.induct)
  case (1 rt net self opts hs idx w)
  show ?case
  proof (cases "length hs \<le> idx")
    case True
    then show ?thesis by (subst impl.simps) simp
  next
    case False
    let ?o = "opts\<lparr>hostname := hs ! idx\<rparr>"
    obtain r w1 where byhost: "jsonRequestByHost rt net self ?o w = (r, w1)"
      by (cases "jsonRequestByHost rt net self ?o w")
    then have c1: "calls w1 = calls w"
      using jsonRequestByHost_calls[of rt net self ?o w] by simp
    show ?thesis
    proof (cases r)
      case (Threw e)
      then show ?thesis using False byhost c1 by (subst impl.simps) simp
    next
      case (Called args)
      obtain retry error res b where args: "args = (retry, error, res, b)"
        by (cases args)
      show ?thesis
      proof (cases "log_failure error b w1")
        case (Inl e)
        then show ?thesis using False byhost c1 Called args by (subst impl.simps) simp
      next
        case (Inr w2)
        then have c2: "calls w2 = calls w1" by (rule log_failure_calls)
        show ?thesis
        proof (cases "retry \<and> error \<and> idx + 1 < length hs")
          case True
          have "calls (snd (impl rt net self opts hs (idx + 1) w2)) = calls w2"
            using "1.IH"[OF False byhost[symmetric] _ _ _ _ Inr True] Called args by simp
          then show ?thesis using False byhost c1 c2 Called args Inr True
            by (subst impl.simps) simp
        next
          case no: False
          then show ?thesis using False byhost c1 c2 Called args Inr
            by (subst impl.simps) auto
        qed
      qed
    qed
  qed
qed

lemma jsonRequest_calls: "calls (snd (jsonRequest rt net self opts w)) = calls w @ [opts]"
  by (simp add: jsonRequest_def impl_calls)

text \<open>
  Whatever the network does, the attempts of one call go to a prefix of the pool, in
  pool order and one per host: never more attempts than the pool has hosts.
\<close>

lemma impl_attempts_in_pool_order:
  "\<exists>k. idx + k \<le> max idx (length hs)
     \<and> attempts (snd (impl rt net self opts hs idx w)) =
         attempts w @ map (\<lambda>h. attempt_for rt self (opts\<lparr>hostname := h\<rparr>)) (take k (drop idx hs))"
proof (induction "length hs - idx" arbitrary: idx w)
  case 0
  then have "attempts (snd (impl rt net self opts hs idx w)) = attempts w"
    by (subst impl.simps) simp
  then show ?case by (intro exI[of _ 0]) simp
next
  case (Suc n)
  let ?f = "\<lambda>h. attempt_for rt self (opts\<lparr>hostname := h\<rparr>)"
  let ?o = "opts\<lparr>hostname := hs ! idx\<rparr>"
  have inside: "\<not> length hs \<le> idx" using Suc.hyps(2) by simp
  obtain r w1 where byhost: "jsonRequestByHost rt net self ?o w = (r, w1)"
    by (cases "jsonRequestByHost rt net self ?o w")
  then have a1: "attempts w1 = attempts w @ [?f (hs ! idx)]"
    using jsonRequestByHost_attempts[of rt net self ?o w] by simp
  have dr: "drop idx hs = hs ! idx # drop (Suc idx) hs"
    using inside by (simp add: Cons_nth_drop_Suc)
  have one: "attempts w1 = attempts w @ map ?f (take 1 (drop idx hs))"
    using a1 dr by simp
  have stop: ?case if "attempts (snd (impl rt net self opts hs idx w)) = attempts w1"
    using that one inside by (intro exI[of _ 1]) simp
  show ?case
  proof (cases r)
    case (Threw e)
    then show ?thesis using inside byhost by (intro stop, subst impl.simps) simp
  next
    case (Called args)
    obtain retry error res b where args: "args = (retry, error, res, b)"
      by (cases args)
    show ?thesis
    proof (cases "log_failure error b w1")
      case (Inl e)
      then show ?thesis using inside byhost Called args
        by (intro stop, subst impl.simps) simp
    next
      case (Inr w2)
      then have a2: "attempts w2 = attempts w1" by (rule log_failure_attempts)
      show ?thesis
      proof (cases "retry \<and> error \<and> idx + 1 < length hs")
        case True
        have "n = length hs - Suc idx" using Suc.hyps(2) by simp
        from Suc.hyps(1)[OF this, of w2]
        obtain k where k: "Suc idx + k \<le> max (Suc idx) (length hs)"
          "attempts (snd (impl rt net self opts hs (Suc idx) w2)) =
             attempts w2 @ map ?f (take k (drop (Suc idx) hs))"
          by blast
        have "impl rt net self opts hs idx w = impl rt net self opts hs (Suc idx) w2"
          using inside byhost Called args Inr True by (subst impl.simps) simp
        then have "attempts (snd (impl rt net self opts hs idx w)) =
            attempts w @ map ?f (take (Suc k) (drop idx hs))"
          using k(2) a2 a1 dr by simp
        moreover have "idx + Suc k \<le> max idx (length hs)" using k(1) True by simp
        ultimately show ?thesis by blast
      next
        case False
        then show ?thesis using inside byhost Called args Inr a2
          by (intro stop, subst impl.simps) auto
      qed
    qed
  qed
qed

lemma jsonRequest_attempts_in_pool_order:
  "\<exists>k \<le> length (hosts w).
     attempts (snd (jsonRequest rt net self opts w)) =
       attempts w @ map (\<lambda>h. attempt_for rt self (opts\<lparr>hostname := h\<rparr>)) (take k (hosts w))"
  using impl_attempts_in_pool_order[of 0 "hosts w" rt net self opts "w\<lparr>calls := calls w @ [opts]\<rparr>"]
  by (auto simp: jsonRequest_def)

text \<open>
  C1. The specification states: for every non-empty host pool in which every host
  responds with HTTP status 503, one call of \<open>_jsonRequest\<close> makes exactly one
  attempt per host, in pool order, never more than the pool has hosts, and ends as a
  failure after the last host; with a pool of one host it makes one attempt and ends as
  a failure. The order and the bound hold for every network
  (\<open>jsonRequest_attempts_in_pool_order\<close>), and the retry policy does the rest
  (\<open>jsonRequest_retries_every_host\<close>), but only for responses the handler can hand
  on. At a pool of one host that answers 503 with no \<open>content-type\<close> header, the
  one attempt is made, the handler raises a TypeError on the missing header, and the
  caller's callback is never invoked: the call does not end as a failure, it does not
  end at all.
\<close>

theorem jsonRequest_503_without_content_type:
  "fst (jsonRequest rt (bare 503) self opts (fresh\<lparr>hosts := [''h1'']\<rparr>)) = Threw TypeError
   \<and> attempts (snd (jsonRequest rt (bare 503) self opts (fresh\<lparr>hosts := [''h1'']\<rparr>)))
       = [attempt_for rt self (opts\<lparr>hostname := ''h1''\<rparr>)]"
  by (simp add: jsonRequest_def impl.simps jsonRequestByHost_def attempt_for_def read_body_def
      bare_def fresh_def Let_def)

text \<open>
  C3. The specification states: with at least two hosts in the pool, a response of the
  first host whose status is none of 200, 201, 0 and 503 ends the call as a terminal
  failure at once, and no other host is tried. For responses the handler can hand on
  this holds (\<open>jsonRequest_stops_at_first_refusal\<close>). At a pool of two hosts whose
  first host answers 404 with no \<open>content-type\<close> header, no second attempt is made
  indeed, but the handler's TypeError escapes and the caller's callback is never
  invoked, so the call is not resolved as a failure.
\<close>

theorem jsonRequest_404_without_content_type:
  "fst (jsonRequest rt (bare 404) self opts (fresh\<lparr>hosts := [''h1'', ''h2'']\<rparr>)) = Threw TypeError
   \<and> attempts (snd (jsonRequest rt (bare 404) self opts (fresh\<lparr>hosts := [''h1'', ''h2'']\<rparr>)))
       = [attempt_for rt self (opts\<lparr>hostname := ''h1''\<rparr>)]"
  by (simp add: jsonRequest_def impl.simps jsonRequestByHost_def attempt_for_def read_body_def
      bare_def fresh_def Let_def)

text \<open>
  C4. A call dispatched against an empty host pool ends at once as a failure whose
  payload is the message \<open>Cannot contact server\<close>; no attempt is made (the world
  changes by the record of the call only).
\<close>

theorem jsonRequest_empty_pool:
  "hosts w = [] \<Longrightarrow>
     jsonRequest rt net self opts w =
       (Called (True, None, Obj [(''message'', Str ''Cannot contact server'')]),
        w\<lparr>calls := calls w @ [opts]\<rparr>)
     \<and> attempts (snd (jsonRequest rt net self opts w)) = attempts w"
  by (simp add: jsonRequest_def impl.simps)

theorem jsonRequest_empty_pool_witness:
  "hosts fresh = []
   \<and> fst (jsonRequest stub_runtime task_server stub_client
           (task_opts stub_runtime ''idx'' (Str ''7'')) fresh)
       = Called (True, None, Obj [(''message'', Str ''Cannot contact server'')])
   \<and> attempts (snd (jsonRequest stub_runtime task_server stub_client
           (task_opts stub_runtime ''idx'' (Str ''7'')) fresh)) = []"
proof -
  have h: "hosts fresh = []" by (simp add: fresh_def)
  show ?thesis
    using h jsonRequest_empty_pool[OF h, of stub_runtime task_server stub_client
        "task_opts stub_runtime ''idx'' (Str ''7'')"]
    by (simp add: fresh_def)
qed

section \<open>Construction of the host pool\<close>

lemma add_hosts_mset: "mset (add_hosts coin i hostsArray hs) = mset hs + mset hostsArray"
  by (induction hostsArray arbitrary: i hs) auto

text \<open>
  Whatever the coins, a construction adds the given hosts to the shared array and
  neither drops nor duplicates anything: the array afterwards is a permutation of the
  array before followed by the given list.
\<close>

lemma AlgoliaSearch_hosts_mset:
  "mset (hosts (snd (AlgoliaSearch coin appID key agent' (Some hostsArray) w)))
     = mset (hosts w) + mset hostsArray"
  by (simp add: AlgoliaSearch_def Let_def add_hosts_mset)

text \<open>So the first construction of a process yields exactly the hosts it was given.\<close>

lemma first_construction_hosts:
  assumes "hosts w = []"
  shows "set (hosts (snd (AlgoliaSearch coin appID key agent' (Some hostsArray) w))) = set hostsArray
    \<and> length (hosts (snd (AlgoliaSearch coin appID key agent' (Some hostsArray) w)))
        = length hostsArray"
proof -
  have "mset (hosts (snd (AlgoliaSearch coin appID key agent' (Some hostsArray) w)))
          = mset hostsArray"
    using assms by (simp add: AlgoliaSearch_hosts_mset)
  then show ?thesis by (metis mset_eq_setD mset_eq_length)
qed

text \<open>
  C2. The specification states: a client constructed with an explicit list of three hosts
  has a pool that holds exactly those three hosts, as a set. The constructor never
  gives the instance an array of its own: it reverses and extends the array of the
  prototype, which every instance shares. The first construction of a process does
  yield the three hosts (\<open>first_construction_hosts\<close>); a second construction, here
  with hosts \<open>x\<close>, \<open>y\<close>, \<open>z\<close> after one with \<open>a\<close>, \<open>b\<close>, \<open>c\<close> (all coins
  tails), leaves the second client, and the first, with a pool of six hosts.
\<close>

theorem second_construction_shares_hosts:
  "hosts (snd (AlgoliaSearch (\<lambda>k. False) ''B'' ''k2'' Undefined (Some [''x'', ''y'', ''z''])
       (snd (AlgoliaSearch (\<lambda>k. False) ''A'' ''k1'' Undefined (Some [''a'', ''b'', ''c'']) fresh))))
   = [''a'', ''b'', ''c'', ''x'', ''y'', ''z'']"
  by (simp add: AlgoliaSearch_def fresh_def Let_def)

section \<open>Rate-limit forwarding and the request's headers\<close>

text \<open>
  C7. While rate-limit forwarding is enabled (the admin key given to
  \<open>enableRateLimitForward\<close> is not \<open>null\<close>, see C9), every request built carries the
  admin key as \<open>X-Algolia-API-Key\<close> and the two forwarding headers
  \<open>X-Forwarded-API-Key\<close> and \<open>X-Forwarded-For\<close>; after \<open>disableRateLimitForward\<close>
  every request built carries the plain API key and no forwarding header.
\<close>

theorem forwarding_headers:
  "adminAPIKey \<noteq> Null \<Longrightarrow>
     headers (computeRequestOptions
        (enableRateLimitForward adminAPIKey endUserIP rateLimitAPIKey self) opts b)
        ''X-Algolia-API-Key'' = Some adminAPIKey
   \<and> headers (computeRequestOptions
        (enableRateLimitForward adminAPIKey endUserIP rateLimitAPIKey self) opts b)
        ''X-Forwarded-API-Key'' = Some rateLimitAPIKey
   \<and> headers (computeRequestOptions
        (enableRateLimitForward adminAPIKey endUserIP rateLimitAPIKey self) opts b)
        ''X-Forwarded-For'' = Some endUserIP
   \<and> headers (computeRequestOptions (disableRateLimitForward self) opts b)
        ''X-Algolia-API-Key'' = Some (Str (apiKey self))
   \<and> headers (computeRequestOptions (disableRateLimitForward self) opts b)
        ''X-Forwarded-API-Key'' = None
   \<and> headers (computeRequestOptions (disableRateLimitForward self) opts b)
        ''X-Forwarded-For'' = None"
  by (cases b)
    (simp_all add: computeRequestOptions_headers enableRateLimitForward_def
      disableRateLimitForward_def)

theorem forwarding_headers_witness:
  "Str ''ADMIN'' \<noteq> Null
   \<and> headers (computeRequestOptions
        (enableRateLimitForward (Str ''ADMIN'') (Str ''10.0.0.7'') (Str ''LIMITED'') stub_client)
        (task_opts stub_runtime ''idx'' (Str ''7'')) None)
        ''X-Algolia-API-Key'' = Some (Str ''ADMIN'')
   \<and> headers (computeRequestOptions
        (enableRateLimitForward (Str ''ADMIN'') (Str ''10.0.0.7'') (Str ''LIMITED'') stub_client)
        (task_opts stub_runtime ''idx'' (Str ''7'')) None)
        ''X-Forwarded-For'' = Some (Str ''10.0.0.7'')
   \<and> headers (computeRequestOptions
        (disableRateLimitForward
          (enableRateLimitForward (Str ''ADMIN'') (Str ''10.0.0.7'') (Str ''LIMITED'') stub_client))
        (task_opts stub_runtime ''idx'' (Str ''7'')) None)
        ''X-Algolia-API-Key'' = Some (Str ''KEY'')
   \<and> headers (computeRequestOptions
        (disableRateLimitForward
          (enableRateLimitForward (Str ''ADMIN'') (Str ''10.0.0.7'') (Str ''LIMITED'') stub_client))
        (task_opts stub_runtime ''idx'' (Str ''7'')) None)
        ''X-Forwarded-For'' = None"
proof -
  have h: "Str ''ADMIN'' \<noteq> Null" by simp
  show ?thesis
    using h
      forwarding_headers[OF h, of "Str ''10.0.0.7''" "Str ''LIMITED''" stub_client
        "task_opts stub_runtime ''idx'' (Str ''7'')" None]
      forwarding_headers[OF h, of "Str ''10.0.0.7''" "Str ''LIMITED''"
        "enableRateLimitForward (Str ''ADMIN'') (Str ''10.0.0.7'') (Str ''LIMITED'') stub_client"
        "task_opts stub_runtime ''idx'' (Str ''7'')" None]
    by (simp add: stub_client_def enableRateLimitForward_def)
qed

text \<open>
  C9. Forwarding is active exactly when the stored admin key is not \<open>null\<close>: the
  forwarding headers are present in a request if and only if it is not. Enabling with
  a \<open>null\<close> admin key builds the very requests of the disabled state, with the plain
  API key and no forwarding header, whatever the other two arguments are.
\<close>

theorem forwarding_needs_admin_key:
  "computeRequestOptions (enableRateLimitForward Null endUserIP rateLimitAPIKey self) opts b
     = computeRequestOptions (disableRateLimitForward self) opts b
   \<and> headers (computeRequestOptions (enableRateLimitForward Null endUserIP rateLimitAPIKey self)
        opts b) ''X-Algolia-API-Key'' = Some (Str (apiKey self))
   \<and> headers (computeRequestOptions (enableRateLimitForward Null endUserIP rateLimitAPIKey self)
        opts b) ''X-Forwarded-API-Key'' = None
   \<and> headers (computeRequestOptions (enableRateLimitForward Null endUserIP rateLimitAPIKey self)
        opts b) ''X-Forwarded-For'' = None
   \<and> (headers (computeRequestOptions self opts b) ''X-Forwarded-For'' = None)
       = (forwardAdminAPIKey self = Null)
   \<and> (headers (computeRequestOptions self opts b) ''X-Forwarded-API-Key'' = None)
       = (forwardAdminAPIKey self = Null)"
proof -
  let ?e = "enableRateLimitForward Null endUserIP rateLimitAPIKey self"
  let ?d = "disableRateLimitForward self"
  have same: "computeRequestOptions ?e opts b = computeRequestOptions ?d opts b"
    by (simp add: computeRequestOptions_fields enableRateLimitForward_def
        disableRateLimitForward_def)
  have plain: "headers (computeRequestOptions ?d opts b) ''X-Algolia-API-Key''
                 = Some (Str (apiKey self))"
    "headers (computeRequestOptions ?d opts b) ''X-Forwarded-API-Key'' = None"
    "headers (computeRequestOptions ?d opts b) ''X-Forwarded-For'' = None"
    by (cases b; simp add: computeRequestOptions_headers disableRateLimitForward_def)+
  have active:
    "(headers (computeRequestOptions self opts b) ''X-Forwarded-For'' = None)
       = (forwardAdminAPIKey self = Null)"
    "(headers (computeRequestOptions self opts b) ''X-Forwarded-API-Key'' = None)
       = (forwardAdminAPIKey self = Null)"
    by (cases b; cases "forwardAdminAPIKey self = Null";
        simp add: computeRequestOptions_headers)+
  show ?thesis using same plain active by simp
qed

text \<open>
  C8. Strings being their UTF-8 bytes, \<open>length\<close> is the byte length of the encoding.
  When \<open>opts.body\<close> is present, the request issued has \<open>Content-Type\<close>
  \<open>application/json\<close> and as \<open>Content-Length\<close> the byte length of the serialised
  body, which is the text written; when it is absent, \<open>Content-Length\<close> is \<open>0\<close> and
  nothing is written. For every host string that contains a colon, the port is no
  longer 443 but the part that follows the first colon (up to a second colon, if there
  is one), and the host name is the part before it; so for every \<open>host:port\<close> the
  port is all that follows the colon. Without a colon the port is 443.
\<close>

theorem request_body_and_port:
  "(body opts \<noteq> Undefined \<longrightarrow>
      headers (options (last (attempts (snd (jsonRequestByHost rt net self opts w)))))
        ''Content-Type'' = Some (Str ''application/json'')
    \<and> headers (options (last (attempts (snd (jsonRequestByHost rt net self opts w)))))
        ''Content-Length'' = Some (Num (int (length (JSON_stringify rt (body opts)))))
    \<and> written (last (attempts (snd (jsonRequestByHost rt net self opts w))))
        = Some (JSON_stringify rt (body opts)))
 \<and> (body opts = Undefined \<longrightarrow>
      headers (options (last (attempts (snd (jsonRequestByHost rt net self opts w)))))
        ''Content-Length'' = Some (Num 0)
    \<and> headers (options (last (attempts (snd (jsonRequestByHost rt net self opts w)))))
        ''Content-Type'' = None
    \<and> written (last (attempts (snd (jsonRequestByHost rt net self opts w)))) = None)
 \<and> (CHR '':'' \<in> set (hostname opts) \<longrightarrow>
      port (options (last (attempts (snd (jsonRequestByHost rt net self opts w)))))
        = Str (takeWhile (\<lambda>c. c \<noteq> CHR '':'')
                (tl (dropWhile (\<lambda>c. c \<noteq> CHR '':'') (hostname opts))))
    \<and> req_hostname (options (last (attempts (snd (jsonRequestByHost rt net self opts w)))))
        = takeWhile (\<lambda>c. c \<noteq> CHR '':'') (hostname opts))
 \<and> (\<forall>h p. hostname opts = h @ '':'' @ p \<and> CHR '':'' \<notin> set h \<and> CHR '':'' \<notin> set p \<longrightarrow>
      port (options (last (attempts (snd (jsonRequestByHost rt net self opts w))))) = Str p
    \<and> req_hostname (options (last (attempts (snd (jsonRequestByHost rt net self opts w))))) = h)
 \<and> (CHR '':'' \<notin> set (hostname opts) \<longrightarrow>
      port (options (last (attempts (snd (jsonRequestByHost rt net self opts w))))) = Num 443
    \<and> req_hostname (options (last (attempts (snd (jsonRequestByHost rt net self opts w)))))
        = hostname opts)"
proof -
  let ?b = "if body opts \<noteq> Undefined then Some (JSON_stringify rt (body opts)) else None"
  let ?req = "last (attempts (snd (jsonRequestByHost rt net self opts w)))"
  have req: "?req = \<lparr>options = computeRequestOptions self opts ?b, written = ?b\<rparr>"
    by (simp add: jsonRequestByHost_attempts attempt_for_def Let_def)
  have present: "body opts \<noteq> Undefined \<longrightarrow>
      headers (options ?req) ''Content-Type'' = Some (Str ''application/json'')
    \<and> headers (options ?req) ''Content-Length''
        = Some (Num (int (length (JSON_stringify rt (body opts)))))
    \<and> written ?req = Some (JSON_stringify rt (body opts))"
    by (simp add: req computeRequestOptions_headers Let_def)
  have absent: "body opts = Undefined \<longrightarrow>
      headers (options ?req) ''Content-Length'' = Some (Num 0)
    \<and> headers (options ?req) ''Content-Type'' = None
    \<and> written ?req = None"
    by (simp add: req computeRequestOptions_headers Let_def)
  have colon: "CHR '':'' \<in> set (hostname opts) \<longrightarrow>
      port (options ?req)
        = Str (takeWhile (\<lambda>c. c \<noteq> CHR '':'')
                (tl (dropWhile (\<lambda>c. c \<noteq> CHR '':'') (hostname opts))))
    \<and> req_hostname (options ?req) = takeWhile (\<lambda>c. c \<noteq> CHR '':'') (hostname opts)"
    using split_second[of "CHR '':''" "hostname opts"]
    by (simp add: req computeRequestOptions_port computeRequestOptions_hostname
        indexOf_colon hd_split at_index_def)
  have host_port: "\<forall>h p. hostname opts = h @ '':'' @ p \<and> CHR '':'' \<notin> set h \<and> CHR '':'' \<notin> set p \<longrightarrow>
      port (options ?req) = Str p \<and> req_hostname (options ?req) = h"
    using port_of_host_colon_port[of opts _ _ self ?b] by (simp add: req)
  have no_colon: "CHR '':'' \<notin> set (hostname opts) \<longrightarrow>
      port (options ?req) = Num 443 \<and> req_hostname (options ?req) = hostname opts"
    by (simp add: req computeRequestOptions_port computeRequestOptions_hostname indexOf_colon)
  show ?thesis using present absent colon host_port no_colon by blast
qed

theorem request_body_and_port_witness:
  "body (task_opts stub_runtime ''idx'' (Str ''7'')\<lparr>body := Obj [], hostname := ''localhost:8080''\<rparr>)
     \<noteq> Undefined
   \<and> CHR '':'' \<in> set ''localhost:8080''
   \<and> ''localhost:8080'' = ''localhost'' @ '':'' @ ''8080''
   \<and> CHR '':'' \<notin> set ''localhost'' \<and> CHR '':'' \<notin> set ''8080''
   \<and> headers (options (last (attempts (snd (jsonRequestByHost stub_runtime empty_server stub_client
         (task_opts stub_runtime ''idx'' (Str ''7'')\<lparr>body := Obj [], hostname := ''localhost:8080''\<rparr>)
         fresh))))) ''Content-Length'' = Some (Num 2)
   \<and> port (options (last (attempts (snd (jsonRequestByHost stub_runtime empty_server stub_client
         (task_opts stub_runtime ''idx'' (Str ''7'')\<lparr>body := Obj [], hostname := ''localhost:8080''\<rparr>)
         fresh))))) = Str ''8080''
   \<and> req_hostname (options (last (attempts (snd (jsonRequestByHost stub_runtime empty_server
         stub_client
         (task_opts stub_runtime ''idx'' (Str ''7'')\<lparr>body := Obj [], hostname := ''localhost:8080''\<rparr>)
         fresh))))) = ''localhost''
   \<and> body (task_opts stub_runtime ''idx'' (Str ''7'')\<lparr>hostname := ''h1''\<rparr>) = Undefined
   \<and> CHR '':'' \<notin> set ''h1''
   \<and> headers (options (last (attempts (snd (jsonRequestByHost stub_runtime empty_server stub_client
         (task_opts stub_runtime ''idx'' (Str ''7'')\<lparr>hostname := ''h1''\<rparr>) fresh)))))
         ''Content-Length'' = Some (Num 0)
   \<and> port (options (last (attempts (snd (jsonRequestByHost stub_runtime empty_server stub_client
         (task_opts stub_runtime ''idx'' (Str ''7'')\<lparr>hostname := ''h1''\<rparr>) fresh))))) = Num 443"
  using
    request_body_and_port[of
      "task_opts stub_runtime ''idx'' (Str ''7'')\<lparr>body := Obj [], hostname := ''localhost:8080''\<rparr>"
      stub_runtime empty_server stub_client fresh]
    request_body_and_port[of
      "task_opts stub_runtime ''idx'' (Str ''7'')\<lparr>hostname := ''h1''\<rparr>"
      stub_runtime empty_server stub_client fresh]
  by (simp add: task_opts_def stub_runtime_def)

section \<open>Index methods that shape a request\<close>

text \<open>
  C5. The specification states: \<open>deleteObject\<close> with the empty string or \<open>null\<close> as
  object id resolves locally as a failure with payload \<open>{message: 'empty objectID'}\<close>,
  the error flag given to the callback saying so, and makes no attempt. The payload is
  that one and the world is untouched (no call of the dispatcher, no attempt), for
  every index; but the flag given to the callback is \<open>false\<close>, which the library's
  convention (\<open>error: boolean set to true if the request had an error\<close>) reads as
  success.
\<close>

theorem deleteObject_empty_objectID:
  "deleteObject rt net as indexName (Str []) w
     = (Called (False, Obj [(''message'', Str ''empty objectID'')]), w)
   \<and> deleteObject rt net as indexName Null w
     = (Called (False, Obj [(''message'', Str ''empty objectID'')]), w)"
  by (simp add: deleteObject_def utf16_length_def)

lemma batch_requests_objects:
  "map (\<lambda>kvs. encodeURIComponent rt
            (case map_of kvs ''objectID'' of None \<Rightarrow> Undefined | Some v \<Rightarrow> v)) ps
     = map Some ids \<Longrightarrow>
   batch_requests rt action (map Obj ps) requests =
     Inr (requests @ map (\<lambda>(kvs, oid). Obj [(''action'', Str action),
                                           (''objectID'', Str oid),
                                           (''body'', Obj kvs)]) (zip ps ids))"
proof (induction ps arbitrary: ids requests)
  case Nil
  then show ?case by simp
next
  case (Cons kvs ps)
  then obtain oid ids' where ids: "ids = oid # ids'"
    by (cases ids) auto
  with Cons.prems have
    enc: "encodeURIComponent rt
            (case map_of kvs ''objectID'' of None \<Rightarrow> Undefined | Some v \<Rightarrow> v) = Some oid"
    and rest: "map (\<lambda>kvs. encodeURIComponent rt
            (case map_of kvs ''objectID'' of None \<Rightarrow> Undefined | Some v \<Rightarrow> v)) ps
          = map Some ids'"
    by simp_all
  show ?case using enc Cons.IH[OF rest] ids by simp
qed

text \<open>An object id that cannot be encoded ends the loop with the URIError.\<close>

lemma batch_requests_refused:
  "\<exists>kvs \<in> set ps. encodeURIComponent rt
       (case map_of kvs ''objectID'' of None \<Rightarrow> Undefined | Some v \<Rightarrow> v) = None \<Longrightarrow>
   batch_requests rt action (map Obj ps) requests = Inl URIError"
proof (induction ps arbitrary: requests)
  case Nil
  then show ?case by simp
next
  case (Cons kvs ps)
  show ?case
  proof (cases "encodeURIComponent rt
       (case map_of kvs ''objectID'' of None \<Rightarrow> Undefined | Some v \<Rightarrow> v)")
    case None
    then show ?thesis by simp
  next
    case (Some oid)
    then have "\<exists>kvs \<in> set ps. encodeURIComponent rt
       (case map_of kvs ''objectID'' of None \<Rightarrow> Undefined | Some v \<Rightarrow> v) = None"
      using Cons.prems by auto
    from Cons.IH[OF this] Some show ?thesis by simp
  qed
qed

text \<open>
  C10. The specification states: for every list of objects, \<open>saveObjects\<close> and
  \<open>partialUpdateObjects\<close> place the \<open>encodeURIComponent\<close> form of each object's
  \<open>objectID\<close>, not the raw value, into the \<open>objectID\<close> of the corresponding entry
  of the batch request body, whose \<open>body\<close> is the object unmodified. Not for every
  list: an \<open>objectID\<close> that \<open>encodeURIComponent\<close> refuses has no encoded form, the
  URIError ends the method inside its loop, and no request is built or dispatched. At
  the list of the one object whose \<open>objectID\<close> is the lone surrogate D800 the world
  stays as it was.
\<close>

theorem batch_lone_surrogate_counterexample:
  "saveObjects stub_runtime empty_server stub_client ''idx''
       [Obj [(''objectID'', Str lone_surrogate)]] one_host = (Threw URIError, one_host)
   \<and> partialUpdateObjects stub_runtime empty_server stub_client ''idx''
       [Obj [(''objectID'', Str lone_surrogate)]] one_host = (Threw URIError, one_host)"
  by (simp add: saveObjects_def partialUpdateObjects_def stub_runtime_def)

text \<open>
  C10, as amended. For every list of objects whose \<open>objectID\<close> values
  \<open>encodeURIComponent\<close> accepts (\<open>ids\<close> are the encoded forms, in order), both
  methods hand the dispatcher a batch body whose \<open>requests\<close> has one entry per
  object, in order: its \<open>objectID\<close> is the encoded form of the object's \<open>objectID\<close>
  (of \<open>undefined\<close> when the object has none), not that value itself, and its
  \<open>body\<close> is the object as given. The request is dispatched once the index name is
  encoded for the URL.
\<close>

theorem batch_entries_encode_objectID:
  "map (\<lambda>kvs. encodeURIComponent rt
            (case map_of kvs ''objectID'' of None \<Rightarrow> Undefined | Some v \<Rightarrow> v)) ps
     = map Some ids \<Longrightarrow>
   saveObjects rt net as indexName (map Obj ps) w =
     (case encodeURIComponent rt (Str indexName) of
        None \<Rightarrow> (Threw URIError, w)
      | Some i \<Rightarrow>
          to_caller (jsonRequest rt net as
            \<lparr>http_method = ''POST'',
             url = ''/1/indexes/'' @ i @ ''/batch'',
             body = Obj [(''requests'', Arr (map (\<lambda>(kvs, oid).
                      Obj [(''action'', Str ''updateObject''),
                           (''objectID'', Str oid),
                           (''body'', Obj kvs)]) (zip ps ids)))],
             hostname = []\<rparr> w))
   \<and> partialUpdateObjects rt net as indexName (map Obj ps) w =
     (case encodeURIComponent rt (Str indexName) of
        None \<Rightarrow> (Threw URIError, w)
      | Some i \<Rightarrow>
          to_caller (jsonRequest rt net as
            \<lparr>http_method = ''POST'',
             url = ''/1/indexes/'' @ i @ ''/batch'',
             body = Obj [(''requests'', Arr (map (\<lambda>(kvs, oid).
                      Obj [(''action'', Str ''partialUpdateObject''),
                           (''objectID'', Str oid),
                           (''body'', Obj kvs)]) (zip ps ids)))],
             hostname = []\<rparr> w))"
  by (simp add: saveObjects_def partialUpdateObjects_def batch_requests_objects)

theorem batch_entries_encode_objectID_witness:
  "map (\<lambda>kvs. encodeURIComponent stub_runtime
            (case map_of kvs ''objectID'' of None \<Rightarrow> Undefined | Some v \<Rightarrow> v))
       [[(''objectID'', Str ''a b''), (''name'', Str ''x'')]]
     = map Some [''a%20b'']
   \<and> saveObjects stub_runtime empty_server stub_client ''idx''
       [Obj [(''objectID'', Str ''a b''), (''name'', Str ''x'')]] one_host =
     to_caller (jsonRequest stub_runtime empty_server stub_client
       \<lparr>http_method = ''POST'',
        url = ''/1/indexes/idx/batch'',
        body = Obj [(''requests'',
                 Arr [Obj [(''action'', Str ''updateObject''),
                           (''objectID'', Str ''a%20b''),
                           (''body'', Obj [(''objectID'', Str ''a b''), (''name'', Str ''x'')])]])],
        hostname = []\<rparr> one_host)
   \<and> partialUpdateObjects stub_runtime empty_server stub_client ''idx''
       [Obj [(''objectID'', Str ''a b''), (''name'', Str ''x'')]] one_host =
     to_caller (jsonRequest stub_runtime empty_server stub_client
       \<lparr>http_method = ''POST'',
        url = ''/1/indexes/idx/batch'',
        body = Obj [(''requests'',
                 Arr [Obj [(''action'', Str ''partialUpdateObject''),
                           (''objectID'', Str ''a%20b''),
                           (''body'', Obj [(''objectID'', Str ''a b''), (''name'', Str ''x'')])]])],
        hostname = []\<rparr> one_host)"
proof -
  have h: "map (\<lambda>kvs. encodeURIComponent stub_runtime
            (case map_of kvs ''objectID'' of None \<Rightarrow> Undefined | Some v \<Rightarrow> v))
       [[(''objectID'', Str ''a b''), (''name'', Str ''x'')]]
     = map Some [''a%20b'']"
    by (simp add: stub_runtime_def lone_surrogate_def)
  have i: "encodeURIComponent stub_runtime (Str ''idx'') = Some ''idx''"
    by (simp add: stub_runtime_def lone_surrogate_def)
  show ?thesis
    using h i
      batch_entries_encode_objectID[OF h, of empty_server stub_client "''idx''" one_host]
    by simp
qed

section \<open>Waiting for a task\<close>

text \<open>What one status check decides, case by case.\<close>

lemma poll_error: "poll True b = Inr (Some (True, b))"
  by (simp add: poll_def)

lemma poll_published:
  "getprop b ''status'' = Inr (Str ''published'') \<Longrightarrow> poll False b = Inr (Some (False, b))"
  by (simp add: poll_def)

lemma poll_pending:
  "getprop b ''status'' = Inr s \<Longrightarrow> s \<noteq> Str ''published'' \<Longrightarrow>
   getprop b ''pendingTask'' = Inr p \<Longrightarrow> truthy p \<Longrightarrow> poll False b = Inr None"
  by (simp add: poll_def)

lemma poll_neither:
  "getprop b ''status'' = Inr s \<Longrightarrow> s \<noteq> Str ''published'' \<Longrightarrow>
   getprop b ''pendingTask'' = Inr p \<Longrightarrow> \<not> truthy p \<Longrightarrow> poll False b = Inr (Some (True, b))"
  by (simp add: poll_def)

lemma poll_null: "poll False Null = Inl TypeError"
  by (simp add: poll_def)

lemma waitTask_again:
  assumes "encodeURIComponent rt (Str indexName) = Some i"
    and "jsonRequest rt net as (task_opts rt i taskID) w = (Called (False, r, b), w')"
    and "poll False b = Inr None"
  shows "waitTask rt net as indexName taskID w = waitTask rt net as indexName taskID w'"
  using assms by (subst waitTask.simps) simp

lemma waitTask_decided:
  assumes "encodeURIComponent rt (Str indexName) = Some i"
    and "jsonRequest rt net as (task_opts rt i taskID) w = (Called (error, r, b), w')"
    and "poll error b = Inr (Some res)"
  shows "waitTask rt net as indexName taskID w = Some (Called res, w')"
  using assms by (subst waitTask.simps) simp

text \<open>
  A run of \<open>n\<close> checks that each find the task pending, through the worlds
  \<open>W 0\<close>, ..., \<open>W n\<close>, leaves \<open>waitTask\<close> where a fresh call at \<open>W n\<close> would be,
  after \<open>n\<close> calls of the dispatcher.
\<close>

lemma waitTask_pending_run:
  assumes enc: "encodeURIComponent rt (Str indexName) = Some i"
    and run: "\<And>k. k < n \<Longrightarrow> \<exists>r b. jsonRequest rt net as (task_opts rt i taskID) (W k)
                                   = (Called (False, r, b), W (Suc k))
                               \<and> poll False b = Inr None"
  shows "waitTask rt net as indexName taskID (W 0) = waitTask rt net as indexName taskID (W n)
    \<and> calls (W n) = calls (W 0) @ replicate n (task_opts rt i taskID)"
  using run
proof (induction n)
  case 0
  then show ?case by simp
next
  case (Suc n)
  have before: "waitTask rt net as indexName taskID (W 0) = waitTask rt net as indexName taskID (W n)"
    "calls (W n) = calls (W 0) @ replicate n (task_opts rt i taskID)"
    using Suc.IH Suc.prems by simp_all
  obtain r b where step: "jsonRequest rt net as (task_opts rt i taskID) (W n)
                            = (Called (False, r, b), W (Suc n))"
    "poll False b = Inr None"
    using Suc.prems[of n] by auto
  have "waitTask rt net as indexName taskID (W n) = waitTask rt net as indexName taskID (W (Suc n))"
    using waitTask_again[OF enc step] .
  moreover have "calls (W (Suc n)) = calls (W n) @ [task_opts rt i taskID]"
    using jsonRequest_calls[of rt net as "task_opts rt i taskID" "W n"] step(1) by simp
  ultimately show ?case using before by (simp add: replicate_append_same)
qed

text \<open>
  So when, after any number \<open>n\<close> of pending checks, a check is decided (the
  dispatcher reports an error, or the body is published, or it is neither published nor
  pending), \<open>waitTask\<close> gives the caller that decision after exactly \<open>n + 1\<close>
  calls of the dispatcher.
\<close>

lemma waitTask_ends_after_pending_run:
  assumes enc: "encodeURIComponent rt (Str indexName) = Some i"
    and run: "\<And>k. k < n \<Longrightarrow> \<exists>r b. jsonRequest rt net as (task_opts rt i taskID) (W k)
                                   = (Called (False, r, b), W (Suc k))
                               \<and> poll False b = Inr None"
    and last: "jsonRequest rt net as (task_opts rt i taskID) (W n) = (Called (error, r, b), u)"
    and decided: "poll error b = Inr (Some res)"
  shows "waitTask rt net as indexName taskID (W 0) = Some (Called res, u)
    \<and> calls u = calls (W 0) @ replicate (Suc n) (task_opts rt i taskID)"
proof -
  have "waitTask rt net as indexName taskID (W 0) = waitTask rt net as indexName taskID (W n)"
    and c: "calls (W n) = calls (W 0) @ replicate n (task_opts rt i taskID)"
    using waitTask_pending_run[where W = W and n = n, OF enc run] by simp_all
  moreover have "waitTask rt net as indexName taskID (W n) = Some (Called res, u)"
    using waitTask_decided[OF enc last decided] .
  moreover have "calls u = calls (W n) @ [task_opts rt i taskID]"
    using jsonRequest_calls[of rt net as "task_opts rt i taskID" "W n"] last by simp
  ultimately show ?thesis by (simp add: replicate_append_same)
qed

text \<open>
  The run \<open>[pending, pending, published]\<close> against one host: three calls of the
  dispatcher, three attempts, and \<open>(false, body)\<close> with the third body.
\<close>

lemma waitTask_three_checks:
  \<open>waitTask stub_runtime task_server stub_client ''idx'' (Str ''7'') one_host
     = Some (Called (False, Obj [(''status'', Str ''published'')]),
             one_host\<lparr>calls := replicate 3 (task_opts stub_runtime ''idx'' (Str ''7'')),
               attempts := replicate 3 (attempt_for stub_runtime stub_client
                 (task_opts stub_runtime ''idx'' (Str ''7'')\<lparr>hostname := ''localhost:8080''\<rparr>))\<rparr>)\<close>
proof -
  let ?o = "task_opts stub_runtime ''idx'' (Str ''7'')"
  let ?a = "attempt_for stub_runtime stub_client (?o\<lparr>hostname := ''localhost:8080''\<rparr>)"
  let ?pending = \<open>json_reply 200 ''{"pendingTask":true}''\<close>
  let ?published = \<open>json_reply 200 ''{"status":"published"}''\<close>
  let ?bp = "Obj [(''pendingTask'', Bool True)]"
  let ?bd = "Obj [(''status'', Str ''published'')]"
  let ?W = "\<lambda>k. one_host\<lparr>calls := replicate k ?o, attempts := replicate k ?a\<rparr>"
  have enc: "encodeURIComponent stub_runtime (Str ''idx'') = Some ''idx''"
    by (simp add: stub_runtime_def lone_surrogate_def)
  have rp: "read_body stub_runtime ?pending = Inr ?bp"
    by (simp add: read_body_def json_reply_def stub_runtime_def indexOf_def toLowerCase_def)
  have rd: "read_body stub_runtime ?published = Inr ?bd"
    by (simp add: read_body_def json_reply_def stub_runtime_def indexOf_def toLowerCase_def)
  have ok: "statusCode (json_reply 200 t) = 200" for t by (simp add: json_reply_def)
  have run: "\<exists>r b. jsonRequest stub_runtime task_server stub_client ?o (?W k)
                     = (Called (False, r, b), ?W (Suc k)) \<and> poll False b = Inr None"
    if "k < 2" for k
  proof -
    have "jsonRequest stub_runtime task_server stub_client ?o (?W k)
            = (Called (False, Some ?pending, ?bp), ?W (Suc k))"
      using jsonRequest_first_host_answers[of task_server "?W k" stub_runtime stub_client ?o
          ?pending ?bp] rp ok that
      by (simp add: task_server_def one_host_def replicate_append_same)
    moreover have "poll False ?bp = Inr None" by (simp add: poll_def)
    ultimately show ?thesis by blast
  qed
  have last: "jsonRequest stub_runtime task_server stub_client ?o (?W 2)
                = (Called (False, Some ?published, ?bd), ?W 3)"
    using jsonRequest_first_host_answers[of task_server "?W 2" stub_runtime stub_client ?o
        ?published ?bd] rd ok
    by (simp add: task_server_def one_host_def numeral_3_eq_3 numeral_2_eq_2)
  have "poll False ?bd = Inr (Some (False, ?bd))" by (simp add: poll_def)
  from waitTask_ends_after_pending_run[of stub_runtime "''idx''" "''idx''" 2 task_server
      stub_client "Str ''7''" ?W False "Some ?published" ?bd "?W 3" "(False, ?bd)",
      OF enc run last this]
  show ?thesis by (simp add: one_host_def)
qed

text \<open>
  C6. The specification states: when the successful status checks answer pending,
  pending, published, \<open>waitTask\<close> makes exactly three checks and gives the caller
  \<open>(false, body)\<close> with the third body; when the first successful response has
  neither a \<open>status\<close> \<open>published\<close> nor a truthy \<open>pendingTask\<close>, it gives the
  caller \<open>(true, body)\<close> after that one check; and when the dispatcher reports an
  error for any check, it gives the caller that failure and checks no more. For bodies
  whose properties can be read that is what \<open>waitTask\<close> does, at whatever check
  the decision comes (\<open>waitTask_ends_after_pending_run\<close> with \<open>poll_error\<close>,
  \<open>poll_published\<close>, \<open>poll_neither\<close>; \<open>waitTask_three_checks\<close>). But a
  successful response whose JSON body is \<open>null\<close> has neither a published status nor
  a truthy \<open>pendingTask\<close>, and there \<open>waitTask\<close> reads \<open>body.status\<close> of
  \<open>null\<close>: after the one check a TypeError escapes the callback it gave the
  dispatcher, and the caller's callback is never invoked.
\<close>

theorem waitTask_null_body:
  "map_option fst (waitTask stub_runtime null_server stub_client ''idx'' (Str ''7'') one_host)
     = Some (Threw TypeError)
   \<and> map_option (calls \<circ> snd)
       (waitTask stub_runtime null_server stub_client ''idx'' (Str ''7'') one_host)
     = Some [task_opts stub_runtime ''idx'' (Str ''7'')]"
proof -
  let ?o = "task_opts stub_runtime ''idx'' (Str ''7'')"
  have enc: "encodeURIComponent stub_runtime (Str ''idx'') = Some ''idx''"
    by (simp add: stub_runtime_def lone_surrogate_def)
  have rn: "read_body stub_runtime (json_reply 200 ''null'') = Inr Null"
    by (simp add: read_body_def json_reply_def stub_runtime_def indexOf_def toLowerCase_def)
  have ok: "statusCode (json_reply 200 ''null'') = 200" by (simp add: json_reply_def)
  have pool: "hosts one_host \<noteq> []" by (simp add: one_host_def)
  have first: "jsonRequest stub_runtime null_server stub_client ?o one_host
      = (Called (False, Some (json_reply 200 ''null''), Null),
         one_host\<lparr>calls := calls one_host @ [?o],
           attempts := attempts one_host @ [attempt_for stub_runtime stub_client
             (?o\<lparr>hostname := hd (hosts one_host)\<rparr>)]\<rparr>)"
    using jsonRequest_first_host_answers[of null_server one_host stub_runtime stub_client ?o
        "json_reply 200 ''null''" Null] rn ok pool
    by (simp add: null_server_def)
  show ?thesis
    using enc first by (subst (1 2) waitTask.simps) (simp add: poll_null one_host_def)
qed

end
